theory Spec2Isabelle
  imports Complex_Main
begin

section \<open>ChemCalc: the kinetic calculator of \<^verbatim>\<open>src/ChemCalc/Kinetic.py\<close>\<close>

text \<open>
  A shallow embedding of the class \<^verbatim>\<open>KineticalCalculator\<close>: its constructor, \<^verbatim>\<open>fit\<close>,
  and \<^verbatim>\<open>calculate\<close> with the nested \<^verbatim>\<open>calculate_concentration_change\<close>.

  Numbers. Python's numbers (\<^verbatim>\<open>int\<close> and \<^verbatim>\<open>float\<close>) are embedded as exact reals: rounding,
  overflow, infinities and NaN of IEEE arithmetic are not part of this model. Everything
  else the code does is: exceptions are values of \<open>py_error\<close>, the mutated attribute
  \<^verbatim>\<open>self.concentrations\<close> is passed explicitly and returned also when an exception leaves
  the method, and the loops are recursive functions.

  Plotting. \<^verbatim>\<open>calculate\<close> is embedded for \<^verbatim>\<open>plot = False\<close>; the calls into matplotlib
  do not touch the calculator and are left out.
\<close>

subsection \<open>Exceptions and Python's indexing\<close>

datatype py_error = NameError | ValueError | IndexError | ZeroDivisionError | TypeError

text \<open>
  \<^verbatim>\<open>NameError\<close> is what the specification calls \<open>NotBoundError\<close>, \<^verbatim>\<open>ValueError\<close> what it
  calls \<open>InvalidArgument\<close>.

  Sequencing of computations that may raise: the first exception wins.
\<close>

definition bindE :: "py_error + 'a \<Rightarrow> ('a \<Rightarrow> py_error + 'b) \<Rightarrow> py_error + 'b" where
  "bindE m f = (case m of Inl e \<Rightarrow> Inl e | Inr x \<Rightarrow> f x)"

text \<open>\<^verbatim>\<open>xs[i]\<close> for a loop counter or a \<^verbatim>\<open>range\<close> index, which is never negative.\<close>

definition nth_err :: "'a list \<Rightarrow> nat \<Rightarrow> py_error + 'a" where
  "nth_err xs i = (if i < length xs then Inr (xs ! i) else Inl IndexError)"

text \<open>
  \<^verbatim>\<open>xs[i]\<close> for an index taken from the reaction tables, an arbitrary Python integer:
  an index in \<open>[-n, 0)\<close> counts from the end, anything outside \<open>[-n, n)\<close> raises.
\<close>

definition py_index :: "nat \<Rightarrow> int \<Rightarrow> nat option" where
  "py_index n i =
     (if 0 \<le> i \<and> i < int n then Some (nat i)
      else if - int n \<le> i \<and> i < 0 then Some (nat (int n + i))
      else None)"

definition py_get :: "'a list \<Rightarrow> int \<Rightarrow> py_error + 'a" where
  "py_get xs i = (case py_index (length xs) i of None \<Rightarrow> Inl IndexError | Some k \<Rightarrow> Inr (xs ! k))"

text \<open>\<^verbatim>\<open>xs[i] = v\<close>, used only after \<^verbatim>\<open>xs[i]\<close> has been read, so the index is in range.\<close>

definition py_set :: "'a list \<Rightarrow> int \<Rightarrow> 'a \<Rightarrow> 'a list" where
  "py_set xs i v = (case py_index (length xs) i of None \<Rightarrow> xs | Some k \<Rightarrow> xs[k := v])"

subsection \<open>Python's \<^verbatim>\<open>**\<close> and \<^verbatim>\<open>int()\<close> on exact numbers\<close>

definition is_integral :: "real \<Rightarrow> bool" where
  "is_integral y = (of_int \<lfloor>y\<rfloor> = y)"

definition pow_val :: "real \<Rightarrow> real \<Rightarrow> real" where
  "pow_val x y = (if is_integral y then x powi \<lfloor>y\<rfloor> else x powr y)"

text \<open>
  \<^verbatim>\<open>x ** y\<close>. A zero base with a negative exponent raises \<^verbatim>\<open>ZeroDivisionError\<close>. A negative
  base with a non-integral exponent gives a complex number in Python, and the comparison
  \<^verbatim>\<open>concentration > 0\<close> of the same step then raises \<^verbatim>\<open>TypeError\<close>; the model has no complex
  numbers and raises \<^verbatim>\<open>TypeError\<close> at the power. Otherwise the value is the real power,
  with \<open>0 ** 0 = 1\<close>.
\<close>

definition py_pow :: "real \<Rightarrow> real \<Rightarrow> py_error + real" where
  "py_pow x y =
     (if x = 0 \<and> y < 0 then Inl ZeroDivisionError
      else if x < 0 \<and> \<not> is_integral y then Inl TypeError
      else Inr (pow_val x y))"

text \<open>\<^verbatim>\<open>int(x)\<close> truncates towards zero.\<close>

definition py_int :: "real \<Rightarrow> int" where
  "py_int x = (if 0 \<le> x then \<lfloor>x\<rfloor> else \<lceil>x\<rceil>)"

subsection \<open>The calculator object\<close>

text \<open>
  The class \<^verbatim>\<open>Enviroment\<close> is imported from \<^verbatim>\<open>_general\<close>; \<^verbatim>\<open>fit\<close> reads the attributes below
  from it. Each per-reaction table entry is a pair: component \<^verbatim>\<open>[0]\<close> belongs to the
  reactants (forward direction), component \<^verbatim>\<open>[1]\<close> to the products (backward direction).
  \<open>env_len\<close> is \<^verbatim>\<open>len(enviroment)\<close>; \<open>env_compounds_concentration\<close> lists the values
  \<^verbatim>\<open>compound["concentration"]\<close>.
\<close>

record enviroment =
  env_rate_constants :: "(real \<times> real) list"
  env_reaction_by_index :: "(int list \<times> int list) list"
  env_stoichiometric_coefficient_by_reaction :: "(real list \<times> real list) list"
  env_rate_dependency_by_reaction :: "(real list \<times> real list) list"
  env_len :: nat
  env_compounds_concentration :: "real list"
  env_compounds_unicode_formula :: "string list"

text \<open>The argument of \<^verbatim>\<open>fit\<close>: an instance of \<^verbatim>\<open>Enviroment\<close> or any other object.\<close>

datatype py_object = EnviromentObj enviroment | OtherObj

text \<open>
  The attributes of a \<^verbatim>\<open>KineticalCalculator\<close>. Before \<^verbatim>\<open>fit\<close> only \<^verbatim>\<open>accuracy\<close> and
  \<^verbatim>\<open>fitted\<close> exist; the record holds empty tables then. \<open>compounds_unicode_formula\<close> is
  \<^verbatim>\<open>self.enviroment.compounds_unicode_formula\<close>.
\<close>

record calc =
  accuracy :: real
  fitted :: bool
  rate_constants :: "(real \<times> real) list"
  reactions_by_index :: "(int list \<times> int list) list"
  stoichiometric_coefficient_by_reaction :: "(real list \<times> real list) list"
  rate_dependency_by_reaction :: "(real list \<times> real list) list"
  number_of_reactions :: nat
  concentrations :: "real list"
  compounds_unicode_formula :: "string list"

definition init :: "real \<Rightarrow> calc" where
  "init a =
     \<lparr>accuracy = a, fitted = False, rate_constants = [], reactions_by_index = [],
      stoichiometric_coefficient_by_reaction = [], rate_dependency_by_reaction = [],
      number_of_reactions = 0, concentrations = [], compounds_unicode_formula = []\<rparr>"

definition fit :: "py_object \<Rightarrow> calc \<Rightarrow> py_error + calc" where
  "fit obj s =
     (case obj of
        OtherObj \<Rightarrow> Inl ValueError
      | EnviromentObj env \<Rightarrow>
          Inr (s\<lparr>rate_constants := env_rate_constants env,
                 reactions_by_index := env_reaction_by_index env,
                 stoichiometric_coefficient_by_reaction :=
                   env_stoichiometric_coefficient_by_reaction env,
                 rate_dependency_by_reaction := env_rate_dependency_by_reaction env,
                 number_of_reactions := env_len env,
                 concentrations := env_compounds_concentration env,
                 compounds_unicode_formula := env_compounds_unicode_formula env,
                 fitted := True\<rparr>))"

text \<open>The \<^verbatim>\<open>Enviroment\<close> whose \<^verbatim>\<open>fit\<close> gives the tables and concentrations of a calculator.\<close>

definition env_of :: "calc \<Rightarrow> enviroment" where
  "env_of s =
     \<lparr>env_rate_constants = rate_constants s,
      env_reaction_by_index = reactions_by_index s,
      env_stoichiometric_coefficient_by_reaction = stoichiometric_coefficient_by_reaction s,
      env_rate_dependency_by_reaction = rate_dependency_by_reaction s,
      env_len = number_of_reactions s,
      env_compounds_concentration = concentrations s,
      env_compounds_unicode_formula = compounds_unicode_formula s\<rparr>"

subsection \<open>\<^verbatim>\<open>calculate_concentration_change\<close>\<close>

text \<open>The two components of a table entry: index \<^verbatim>\<open>[0]\<close> and index \<^verbatim>\<open>[1]\<close>.\<close>

datatype side = Reactants | Products

fun side_at :: "side \<Rightarrow> 'a \<times> 'a \<Rightarrow> 'a" where
  "side_at Reactants p = fst p"
| "side_at Products p = snd p"

text \<open>
  The loops of lines 104--109 (\<open>Reactants\<close>, on \<^verbatim>\<open>rf\<close>) and 112--117 (\<open>Products\<close>, on
  \<^verbatim>\<open>rb\<close>): every compound of the side multiplies the rate by its concentration raised to
  its rate dependency, except that a zero concentration with a negative dependency
  resets the rate to 0.
\<close>

fun rate_loop :: "calc \<Rightarrow> nat \<Rightarrow> side \<Rightarrow> nat \<Rightarrow> int list \<Rightarrow> real \<Rightarrow> py_error + real" where
  "rate_loop s rxn_index sd counter [] r = Inr r"
| "rate_loop s rxn_index sd counter (compound # rest) r =
     bindE (py_get (concentrations s) compound) (\<lambda>c.
     bindE (nth_err (rate_dependency_by_reaction s) rxn_index) (\<lambda>dep.
     bindE (nth_err (side_at sd dep) counter) (\<lambda>e.
       if \<not> (c = 0 \<and> e < 0)
       then bindE (py_pow c e) (\<lambda>p. rate_loop s rxn_index sd (Suc counter) rest (r * p))
       else rate_loop s rxn_index sd (Suc counter) rest 0)))"

text \<open>
  The loops of lines 119--121 and 123--125: \<^verbatim>\<open>concentration_change[compound] += d * coefficient\<close>
  with \<open>d = rb - rf\<close> for the reactants and \<open>d = rf - rb\<close> for the products.
\<close>

fun change_loop ::
  "calc \<Rightarrow> nat \<Rightarrow> side \<Rightarrow> real \<Rightarrow> nat \<Rightarrow> int list \<Rightarrow> real list \<Rightarrow> py_error + real list" where
  "change_loop s rxn_index sd d counter [] concentration_change = Inr concentration_change"
| "change_loop s rxn_index sd d counter (compound # rest) concentration_change =
     bindE (py_get concentration_change compound) (\<lambda>old.
     bindE (nth_err (stoichiometric_coefficient_by_reaction s) rxn_index) (\<lambda>st.
     bindE (nth_err (side_at sd st) counter) (\<lambda>coefficient.
       change_loop s rxn_index sd d (Suc counter) rest
         (py_set concentration_change compound (old + d * coefficient)))))"

text \<open>The body of the loop over the reactions (lines 102--125).\<close>

definition reaction_step :: "calc \<Rightarrow> nat \<Rightarrow> real list \<Rightarrow> py_error + real list" where
  "reaction_step s rxn_index concentration_change =
     bindE (nth_err (rate_constants s) rxn_index) (\<lambda>k.
     bindE (nth_err (reactions_by_index s) rxn_index) (\<lambda>idx.
     bindE (rate_loop s rxn_index Reactants 0 (fst idx) (accuracy s * fst k)) (\<lambda>rf.
     bindE (rate_loop s rxn_index Products 0 (snd idx) (accuracy s * snd k)) (\<lambda>rb.
     bindE (change_loop s rxn_index Reactants (rb - rf) 0 (fst idx) concentration_change)
       (\<lambda>concentration_change.
     change_loop s rxn_index Products (rf - rb) 0 (snd idx) concentration_change)))))"

text \<open>\<^verbatim>\<open>for rxn_index in range(self.number_of_reactions)\<close>, with \<open>k\<close> reactions still to do.\<close>

fun reactions_loop :: "calc \<Rightarrow> nat \<Rightarrow> nat \<Rightarrow> real list \<Rightarrow> py_error + real list" where
  "reactions_loop s 0 rxn_index concentration_change = Inr concentration_change"
| "reactions_loop s (Suc k) rxn_index concentration_change =
     bindE (reaction_step s rxn_index concentration_change)
       (reactions_loop s k (Suc rxn_index))"

definition calculate_concentration_change :: "calc \<Rightarrow> py_error + real list" where
  "calculate_concentration_change s =
     reactions_loop s (number_of_reactions s) 0 (replicate (length (concentrations s)) 0)"

subsection \<open>\<^verbatim>\<open>calculate\<close>\<close>

text \<open>
  The rows of the returned list: the header \<^verbatim>\<open>["time", formulas]\<close> and the pairs
  \<^verbatim>\<open>[time, concentrations]\<close>.
\<close>

datatype row = Header string "string list" | Snapshot real "real list"

text \<open>
  The update of lines 130--142, \<^verbatim>\<open>for j in range(len(delta_concentration))\<close>, with \<open>j\<close> the
  index of the head of the remaining deltas. The result holds the concentrations as
  they are when the loop ends or raises.
\<close>

fun update_loop :: "string \<Rightarrow> nat \<Rightarrow> real list \<Rightarrow> real list \<Rightarrow> py_error option \<times> real list" where
  "update_loop concentration_below_zero j [] cs = (None, cs)"
| "update_loop concentration_below_zero j (d # ds) cs =
     (let concentration = cs ! j + d in
      if concentration > 0 then update_loop concentration_below_zero (Suc j) ds (cs[j := concentration])
      else if concentration_below_zero = ''DoNotChange''
        then update_loop concentration_below_zero (Suc j) ds cs
      else if concentration_below_zero = ''GoNegetive''
        then update_loop concentration_below_zero (Suc j) ds (cs[j := concentration])
      else if concentration_below_zero = ''SetToZero''
        then update_loop concentration_below_zero (Suc j) ds (cs[j := 0])
      else (Some ValueError, cs))"

definition update_concentrations :: "string \<Rightarrow> real list \<Rightarrow> real list \<Rightarrow> py_error option \<times> real list" where
  "update_concentrations concentration_below_zero delta_concentration cs =
     update_loop concentration_below_zero 0 delta_concentration cs"

text \<open>The loop of lines 146--149 over \<^verbatim>\<open>checkpoint_time\<close>.\<close>

fun record_checkpoints :: "real \<Rightarrow> real \<Rightarrow> real list \<Rightarrow> real list \<Rightarrow> row list \<Rightarrow> row list" where
  "record_checkpoints t acc cs [] checkpoints = checkpoints"
| "record_checkpoints t acc cs (checkpoint_t # rest) checkpoints =
     (if t \<le> checkpoint_t \<and> checkpoint_t < t + acc
      then record_checkpoints t acc cs rest (checkpoints @ [Snapshot checkpoint_t cs])
      else record_checkpoints t acc cs rest checkpoints)"

text \<open>
  One iteration of the main loop (lines 129--151) on the calculator, the clock \<open>t\<close> and the
  list \<open>checkpoints\<close>. An exception leaves the calculator as it is at that moment.
\<close>

type_synonym loop_state = "calc \<times> real \<times> row list"

definition tick :: "real list \<Rightarrow> string \<Rightarrow> loop_state \<Rightarrow> py_error option \<times> loop_state" where
  "tick checkpoint_time concentration_below_zero st =
     (case st of (s, t, checkpoints) \<Rightarrow>
        (case calculate_concentration_change s of
           Inl e \<Rightarrow> (Some e, st)
         | Inr delta_concentration \<Rightarrow>
             (case update_concentrations concentration_below_zero delta_concentration
                     (concentrations s) of
                (Some e, cs) \<Rightarrow> (Some e, (s\<lparr>concentrations := cs\<rparr>, t, checkpoints))
              | (None, cs) \<Rightarrow>
                  (None, (s\<lparr>concentrations := cs\<rparr>, t + accuracy s,
                          record_checkpoints t (accuracy s) cs checkpoint_time checkpoints)))))"

text \<open>\<^verbatim>\<open>for i in range(n)\<close> around it.\<close>

fun run_loop :: "real list \<Rightarrow> string \<Rightarrow> nat \<Rightarrow> loop_state \<Rightarrow> py_error option \<times> loop_state" where
  "run_loop checkpoint_time concentration_below_zero 0 st = (None, st)"
| "run_loop checkpoint_time concentration_below_zero (Suc n) st =
     (case tick checkpoint_time concentration_below_zero st of
        (Some e, st') \<Rightarrow> (Some e, st')
      | (None, st') \<Rightarrow> run_loop checkpoint_time concentration_below_zero n st')"

text \<open>
  \<^verbatim>\<open>calculate(time, checkpoint_time, False, concentration_below_zero)\<close>: the returned list
  or the exception, and the calculator afterwards. \<^verbatim>\<open>time / self.accuracy\<close> raises for a
  zero accuracy; \<^verbatim>\<open>range\<close> of a negative number is empty.
\<close>

definition iterations :: "real \<Rightarrow> real \<Rightarrow> nat" where
  "iterations time acc = nat (py_int (time / acc + 1))"

definition calculate :: "real \<Rightarrow> real list \<Rightarrow> string \<Rightarrow> calc \<Rightarrow> (py_error + row list) \<times> calc" where
  "calculate time checkpoint_time concentration_below_zero s =
     (if \<not> fitted s then (Inl NameError, s)
      else if accuracy s = 0 then (Inl ZeroDivisionError, s)
      else
        (case run_loop checkpoint_time concentration_below_zero (iterations time (accuracy s))
                (s, 0, [Header ''time'' (compounds_unicode_formula s)]) of
           (Some e, (s', t, checkpoints)) \<Rightarrow> (Inl e, s')
         | (None, (s', t, checkpoints)) \<Rightarrow>
             (Inr (checkpoints @ [Snapshot time (concentrations s')]), s')))"

subsection \<open>Auxiliary predicates and example calculators\<close>

text \<open>A row without a negative concentration.\<close>

definition nonneg_row :: "row \<Rightarrow> bool" where
  "nonneg_row r = (case r of Header _ _ \<Rightarrow> True | Snapshot c cs \<Rightarrow> list_all (\<lambda>x. 0 \<le> x) cs)"

text \<open>
  \<open>A \<rightleftharpoons> B\<close> with step 1/2, forward constant 1, backward constant 1/2, both of first
  order, from concentrations \<open>[1, 1]\<close>.
\<close>

definition ex_AB :: calc where
  "ex_AB = \<lparr>accuracy = 1/2, fitted = True, rate_constants = [(1, 1/2)],
      reactions_by_index = [([0], [1])],
      stoichiometric_coefficient_by_reaction = [([1], [1])],
      rate_dependency_by_reaction = [([1], [1])],
      number_of_reactions = 1, concentrations = [1, 1],
      compounds_unicode_formula = [''A'', ''B'']\<rparr>"

text \<open>\<open>B \<rightarrow> A\<close> with step 1/2 and forward constant 4: one step consumes twice what is there.\<close>

definition ex_fast :: calc where
  "ex_fast = \<lparr>accuracy = 1/2, fitted = True, rate_constants = [(4, 0)],
      reactions_by_index = [([1], [0])],
      stoichiometric_coefficient_by_reaction = [([1], [1])],
      rate_dependency_by_reaction = [([1], [1])],
      number_of_reactions = 1, concentrations = [1, 1],
      compounds_unicode_formula = [''A'', ''B'']\<rparr>"

text \<open>The same reaction started from a negative concentration of \<open>A\<close>.\<close>

definition ex_negative :: calc where
  "ex_negative = ex_fast\<lparr>concentrations := [- 3, 1]\<rparr>"


text \<open>
  The concentrations after \<open>k\<close> iterations of the main loop, and the rows iteration \<open>i\<close>
  (on the interval from \<open>i * acc\<close> to \<open>i * acc + acc\<close>) appends when it leaves the
  concentrations \<open>cs\<close>.
\<close>

definition concentrations_after :: "string \<Rightarrow> nat \<Rightarrow> calc \<Rightarrow> real list" where
  "concentrations_after p k s = concentrations (fst (snd (run_loop [] p k (s, 0, []))))"

definition step_rows :: "real \<Rightarrow> nat \<Rightarrow> real list \<Rightarrow> real list \<Rightarrow> row list" where
  "step_rows acc i cs cps =
     map (\<lambda>c. Snapshot c cs) (filter (\<lambda>c. of_nat i * acc \<le> c \<and> c < of_nat i * acc + acc) cps)"

text \<open>The time of a row, and the rows between the header and the final row.\<close>

fun row_time :: "row \<Rightarrow> real" where
  "row_time (Snapshot c cs) = c"
| "row_time (Header h fs) = 0"

definition recorded_rows :: "row list \<Rightarrow> row list" where
  "recorded_rows rows = butlast (tl rows)"

text \<open>No reaction at all, one concentration negative.\<close>

definition ex_idle :: calc where
  "ex_idle = \<lparr>accuracy = 1/2, fitted = True, rate_constants = [], reactions_by_index = [],
      stoichiometric_coefficient_by_reaction = [], rate_dependency_by_reaction = [],
      number_of_reactions = 0, concentrations = [- 1, 2],
      compounds_unicode_formula = [''A'', ''B'']\<rparr>"

subsection \<open>The rate law of the specification\<close>















section \<open>Properties\<close>

subsection \<open>Fitted calculators\<close>

text \<open>Every fitted calculator is what the constructor and one \<^verbatim>\<open>fit\<close> produce.\<close>

lemma fitted_reachable:
  "fitted s \<Longrightarrow> fit (EnviromentObj (env_of s)) (init (accuracy s)) = Inr s"
  by (cases s) (simp add: fit_def init_def env_of_def)

lemma fit_fitted: "fit obj s = Inr s' \<Longrightarrow> fitted s'"
  by (cases obj) (auto simp: fit_def)

subsection \<open>Sequencing, lengths and the update loop\<close>

lemma bindE_Inr_iff: "bindE m f = Inr y \<longleftrightarrow> (\<exists>x. m = Inr x \<and> f x = Inr y)"
  by (cases m) (simp_all add: bindE_def)

lemma bindE_Inr [simp]: "bindE (Inr x) f = f x"
  by (simp add: bindE_def)

lemma bindE_Inl [simp]: "bindE (Inl e) f = Inl e"
  by (simp add: bindE_def)

lemma length_py_set [simp]: "length (py_set xs i v) = length xs"
  by (simp add: py_set_def split: option.splits)

lemma change_loop_length:
  "change_loop s r sd d counter idxs ch = Inr ch' \<Longrightarrow> length ch' = length ch"
proof (induction idxs arbitrary: counter ch)
  case Nil
  then show ?case by simp
next
  case (Cons compound rest)
  then show ?case by (fastforce simp: bindE_Inr_iff)
qed

lemma reaction_step_length:
  "reaction_step s r ch = Inr ch' \<Longrightarrow> length ch' = length ch"
  unfolding reaction_step_def bindE_Inr_iff
  by (auto dest!: change_loop_length)

lemma reactions_loop_length:
  "reactions_loop s k r ch = Inr ch' \<Longrightarrow> length ch' = length ch"
proof (induction k arbitrary: r ch)
  case 0
  then show ?case by simp
next
  case (Suc k)
  then show ?case by (fastforce simp: bindE_Inr_iff dest: reaction_step_length)
qed

lemma calculate_concentration_change_length:
  "calculate_concentration_change s = Inr delta \<Longrightarrow> length delta = length (concentrations s)"
  unfolding calculate_concentration_change_def by (drule reactions_loop_length) simp

lemma update_loop_positive:
  "\<forall>i<length ds. 0 < cs ! (j + i) + ds ! i \<Longrightarrow>
   j + length ds \<le> length cs \<Longrightarrow>
   update_loop p j ds cs = (None, take j cs @ map2 (+) (drop j cs) ds @ drop (j + length ds) cs)"
proof (induction ds arbitrary: j cs)
  case Nil
  then show ?case by simp
next
  case (Cons d ds)
  let ?cs = "cs[j := cs ! j + d]"
  from Cons.prems have pos: "0 < cs ! j + d" by force
  from Cons.prems have j: "j < length cs" by simp
  have "\<forall>i<length ds. 0 < ?cs ! (Suc j + i) + ds ! i"
    using Cons.prems(1) by fastforce
  moreover have "Suc j + length ds \<le> length ?cs" using Cons.prems(2) by simp
  ultimately have "update_loop p (Suc j) ds ?cs =
      (None, take (Suc j) ?cs @ map2 (+) (drop (Suc j) ?cs) ds @ drop (Suc j + length ds) ?cs)"
    by (rule Cons.IH)
  moreover have "take (Suc j) ?cs = take j cs @ [cs ! j + d]"
    using j by (simp add: take_Suc_conv_app_nth)
  moreover have "drop j cs = cs ! j # drop (Suc j) cs"
    using j by (simp add: Cons_nth_drop_Suc)
  ultimately show ?case using pos by simp
qed

lemma update_concentrations_positive:
  assumes "length delta = length cs" and "\<forall>j<length cs. 0 < cs ! j + delta ! j"
  shows "update_concentrations p delta cs = (None, map2 (+) cs delta)"
  using update_loop_positive [of delta cs 0 p] assms
  by (simp add: update_concentrations_def)

lemma update_loop_clamp:
  "update_loop ''SetToZero'' j ds cs = (e, cs') \<Longrightarrow>
   e = None \<and> length cs' = length cs \<and> (\<forall>k<j. cs' ! k = cs ! k) \<and>
   (\<forall>k. j \<le> k \<and> k < j + length ds \<and> k < length cs \<longrightarrow> 0 \<le> cs' ! k)"
proof (induction ds arbitrary: j cs)
  case Nil
  then show ?case by simp
next
  case (Cons d ds)
  define cs1 where "cs1 = (if 0 < cs ! j + d then cs[j := cs ! j + d] else cs[j := 0])"
  from Cons.prems have run: "update_loop ''SetToZero'' (Suc j) ds cs1 = (e, cs')"
    by (simp add: cs1_def Let_def split: if_splits)
  note ih = Cons.IH [OF run]
  have len: "length cs1 = length cs" by (simp add: cs1_def)
  have head: "j < length cs \<Longrightarrow> 0 \<le> cs1 ! j" by (simp add: cs1_def)
  have before: "\<And>k. k < j \<Longrightarrow> cs1 ! k = cs ! k" by (simp add: cs1_def)
  show ?case
  proof (intro conjI allI impI)
    show "e = None" using ih by simp
    show "length cs' = length cs" using ih len by simp
    show "cs' ! k = cs ! k" if "k < j" for k using ih before that by simp
    show "0 \<le> cs' ! k" if "j \<le> k \<and> k < j + length (d # ds) \<and> k < length cs" for k
    proof (cases "k = j")
      case True
      then show ?thesis using ih head that by simp
    next
      case False
      then show ?thesis using ih that len by simp
    qed
  qed
qed

lemma update_concentrations_clamp:
  assumes "update_concentrations ''SetToZero'' delta cs = (e, cs')" and "length delta = length cs"
  shows "e = None \<and> length cs' = length cs \<and> (\<forall>x\<in>set cs'. 0 \<le> x)"
proof -
  from assms(1) have "update_loop ''SetToZero'' 0 delta cs = (e, cs')"
    by (simp add: update_concentrations_def)
  from update_loop_clamp [OF this] assms(2)
  have "e = None" "length cs' = length cs" "\<forall>k<length cs'. 0 \<le> cs' ! k" by simp_all
  then show ?thesis by (auto simp: in_set_conv_nth)
qed

lemma record_checkpoints_eq:
  "record_checkpoints t acc cs cps ck =
     ck @ map (\<lambda>c. Snapshot c cs) (filter (\<lambda>c. t \<le> c \<and> c < t + acc) cps)"
  by (induction cps arbitrary: ck) simp_all

lemma tick_None:
  assumes "tick cps p (s, t, ck) = (None, st')"
  shows "\<exists>delta cs. calculate_concentration_change s = Inr delta \<and>
           update_concentrations p delta (concentrations s) = (None, cs) \<and>
           st' = (s\<lparr>concentrations := cs\<rparr>, t + accuracy s,
                  ck @ map (\<lambda>c. Snapshot c cs) (filter (\<lambda>c. t \<le> c \<and> c < t + accuracy s) cps))"
  using assms
  by (auto simp: tick_def record_checkpoints_eq split: sum.splits prod.splits option.splits)

lemma tick_Some:
  assumes "tick cps p (s, t, ck) = (Some e, st')"
  shows "\<exists>cs. st' = (s\<lparr>concentrations := cs\<rparr>, t, ck)"
proof (cases "calculate_concentration_change s")
  case (Inl e')
  then have "st' = (s\<lparr>concentrations := concentrations s\<rparr>, t, ck)"
    using assms by (simp add: tick_def)
  then show ?thesis by blast
next
  case (Inr delta)
  then show ?thesis using assms
    by (auto simp: tick_def split: prod.splits option.splits)
qed

lemma iterations_pos: "0 \<le> time / acc \<Longrightarrow> 0 < iterations time acc"
  by (simp add: iterations_def py_int_def)

lemma run_loop_clamp:
  "run_loop cps ''SetToZero'' n (s, t, ck) = (e, (s', t', ck')) \<Longrightarrow>
   list_all nonneg_row ck \<Longrightarrow>
   list_all nonneg_row ck' \<and>
   (e = None \<and> 0 < n \<longrightarrow> list_all (\<lambda>x. 0 \<le> x) (concentrations s'))"
proof (induction n arbitrary: s t ck)
  case 0
  then show ?case by simp
next
  case (Suc n)
  obtain e1 st1 where tk: "tick cps ''SetToZero'' (s, t, ck) = (e1, st1)"
    by (cases "tick cps ''SetToZero'' (s, t, ck)")
  show ?case
  proof (cases e1)
    case (Some err)
    with tk Suc.prems(1) have "e = Some err" "st1 = (s', t', ck')" by simp_all
    moreover from tick_Some tk Some obtain cs where "st1 = (s\<lparr>concentrations := cs\<rparr>, t, ck)"
      by blast
    ultimately show ?thesis using Suc.prems(2) by simp
  next
    case None
    from tick_None tk None obtain delta cs where
      d: "calculate_concentration_change s = Inr delta" and
      u: "update_concentrations ''SetToZero'' delta (concentrations s) = (None, cs)" and
      st1: "st1 = (s\<lparr>concentrations := cs\<rparr>, t + accuracy s,
              ck @ map (\<lambda>c. Snapshot c cs) (filter (\<lambda>c. t \<le> c \<and> c < t + accuracy s) cps))"
      by blast
    have "length delta = length (concentrations s)"
      using d by (rule calculate_concentration_change_length)
    with update_concentrations_clamp [OF u] have nn: "list_all (\<lambda>x. 0 \<le> x) cs"
      by (simp add: list_all_iff)
    let ?ck1 = "ck @ map (\<lambda>c. Snapshot c cs) (filter (\<lambda>c. t \<le> c \<and> c < t + accuracy s) cps)"
    have ck1: "list_all nonneg_row ?ck1"
      using Suc.prems(2) nn by (auto simp: list_all_iff nonneg_row_def)
    from tk None st1 Suc.prems(1)
    have rest: "run_loop cps ''SetToZero'' n (s\<lparr>concentrations := cs\<rparr>, t + accuracy s, ?ck1) =
                  (e, (s', t', ck'))"
      by simp
    note ih = Suc.IH [OF rest ck1]
    show ?thesis
    proof (cases n)
      case 0
      with rest have "s' = s\<lparr>concentrations := cs\<rparr>" "ck' = ?ck1" by auto
      then show ?thesis using nn ck1 by simp
    next
      case (Suc m)
      then show ?thesis using ih by simp
    qed
  qed
qed

subsection \<open>The delta computation in closed form\<close>












subsection \<open>The main loop\<close>

lemma run_loop_end:
  "run_loop cps p (Suc n) st =
     (case run_loop cps p n st of
        (Some e, st') \<Rightarrow> (Some e, st')
      | (None, st') \<Rightarrow> tick cps p st')"
proof (induction n arbitrary: st)
  case 0
  show ?case by (simp split: prod.splits option.splits)
next
  case (Suc n)
  obtain e st1 where first: "tick cps p st = (e, st1)"
    by (cases "tick cps p st")
  show ?case
  proof (cases e)
    case None
    with first have "run_loop cps p (Suc (Suc n)) st = run_loop cps p (Suc n) st1"
      by simp
    also have "\<dots> = (case run_loop cps p n st1 of
                        (Some e, st') \<Rightarrow> (Some e, st') | (None, st') \<Rightarrow> tick cps p st')"
      by (rule Suc.IH)
    also have "run_loop cps p n st1 = run_loop cps p (Suc n) st"
      using first None by simp
    finally show ?thesis .
  next
    case (Some err)
    with first show ?thesis by simp
  qed
qed

lemma run_loop_None:
  "run_loop cps p n (s, 0, ck) = (None, (s', t', ck')) \<Longrightarrow>
   run_loop [] p n (s, 0, []) = (None, (s', t', [])) \<and>
   s' = s\<lparr>concentrations := concentrations s'\<rparr> \<and>
   t' = of_nat n * accuracy s \<and>
   ck' = ck @ concat (map (\<lambda>i. step_rows (accuracy s) i (concentrations_after p (Suc i) s) cps) [0..<n])"
proof (induction n arbitrary: s' t' ck')
  case 0
  then show ?case by simp
next
  case (Suc n)
  obtain e1 s1 t1 ck1 where r: "run_loop cps p n (s, 0, ck) = (e1, (s1, t1, ck1))"
    by (metis prod.exhaust)
  with Suc.prems have e1: "e1 = None" and tk: "tick cps p (s1, t1, ck1) = (None, (s', t', ck'))"
    by (auto simp: run_loop_end simp del: run_loop.simps split: option.splits)
  from Suc.IH [OF r [unfolded e1]] have
    r0: "run_loop [] p n (s, 0, []) = (None, (s1, t1, []))" and
    s1: "s1 = s\<lparr>concentrations := concentrations s1\<rparr>" and
    t1: "t1 = of_nat n * accuracy s" and
    ck1: "ck1 = ck @ concat (map (\<lambda>i. step_rows (accuracy s) i (concentrations_after p (Suc i) s) cps) [0..<n])"
    by simp_all
  from tick_None [OF tk] obtain delta cs where
    d: "calculate_concentration_change s1 = Inr delta" and
    u: "update_concentrations p delta (concentrations s1) = (None, cs)" and
    st: "(s', t', ck') = (s1\<lparr>concentrations := cs\<rparr>, t1 + accuracy s1,
           ck1 @ map (\<lambda>c. Snapshot c cs) (filter (\<lambda>c. t1 \<le> c \<and> c < t1 + accuracy s1) cps))"
    by blast
  have acc1: "accuracy s1 = accuracy s" by (subst s1) simp
  have tk0: "tick [] p (s1, t1, []) = (None, (s', t', []))"
    using d u st by (simp add: tick_def)
  have r0': "run_loop [] p (Suc n) (s, 0, []) = (None, (s', t', []))"
    using r0 tk0 by (simp add: run_loop_end del: run_loop.simps)
  then have after: "concentrations_after p (Suc n) s = cs"
    using st by (simp add: concentrations_after_def del: run_loop.simps)
  have "s' = s\<lparr>concentrations := concentrations s'\<rparr>"
    using st by (simp, subst s1, simp)
  moreover have "t' = of_nat (Suc n) * accuracy s"
    using st t1 acc1 by (simp add: algebra_simps)
  moreover have "ck' = ck @ concat (map (\<lambda>i. step_rows (accuracy s) i (concentrations_after p (Suc i) s) cps) [0..<Suc n])"
    using st ck1 t1 acc1 after by (simp add: step_rows_def)
  ultimately show ?case using r0' by blast
qed


lemma calculate_Inr:
  assumes "calculate time cps p s = (Inr rows, s')"
  shows "fitted s \<and> accuracy s \<noteq> 0 \<and>
         (\<exists>t ck. run_loop cps p (iterations time (accuracy s))
                   (s, 0, [Header ''time'' (compounds_unicode_formula s)]) = (None, (s', t, ck)) \<and>
                 rows = ck @ [Snapshot time (concentrations s')])"
  using assms by (auto simp: calculate_def split: if_splits prod.splits option.splits)

lemma calculate_rows:
  assumes "calculate time cps p s = (Inr rows, s')"
  shows "rows = Header ''time'' (compounds_unicode_formula s) # recorded_rows rows @
                  [Snapshot time (concentrations s')]"
    and "recorded_rows rows =
           concat (map (\<lambda>i. step_rows (accuracy s) i (concentrations_after p (Suc i) s) cps)
                    [0..<iterations time (accuracy s)])"
proof -
  from calculate_Inr [OF assms] obtain t ck where
    run: "run_loop cps p (iterations time (accuracy s))
            (s, 0, [Header ''time'' (compounds_unicode_formula s)]) = (None, (s', t, ck))"
    and rows: "rows = ck @ [Snapshot time (concentrations s')]"
    by blast
  from run_loop_None [OF run] have
    ck: "ck = [Header ''time'' (compounds_unicode_formula s)] @
           concat (map (\<lambda>i. step_rows (accuracy s) i (concentrations_after p (Suc i) s) cps)
                    [0..<iterations time (accuracy s)])"
    by simp
  show "recorded_rows rows =
           concat (map (\<lambda>i. step_rows (accuracy s) i (concentrations_after p (Suc i) s) cps)
                    [0..<iterations time (accuracy s)])"
    by (simp add: rows ck recorded_rows_def butlast_append)
  then show "rows = Header ''time'' (compounds_unicode_formula s) # recorded_rows rows @
                  [Snapshot time (concentrations s')]"
    by (simp add: rows ck)
qed



lemma sorted_concat_upt:
  fixes f :: "nat \<Rightarrow> ('a::linorder) list"
  assumes "\<And>i. i < n \<Longrightarrow> sorted (f i)"
    and "\<And>i j x y. i < j \<Longrightarrow> j < n \<Longrightarrow> x \<in> set (f i) \<Longrightarrow> y \<in> set (f j) \<Longrightarrow> x \<le> y"
  shows "sorted (concat (map f [0..<n]))"
  using assms
proof (induction n)
  case 0
  show ?case by simp
next
  case (Suc n)
  have "sorted (concat (map f [0..<n]))"
    by (rule Suc.IH) (use Suc.prems in auto)
  moreover have "sorted (f n)" using Suc.prems(1) by simp
  moreover have "x \<le> y" if "x \<in> set (concat (map f [0..<n]))" "y \<in> set (f n)" for x y
    using that Suc.prems(2) [of _ n x y] by auto
  ultimately show ?case by (simp add: sorted_append)
qed





lemma update_loop_idle:
  assumes "p = ''DoNotChange'' \<or> p = ''GoNegetive'' \<or>
           (p = ''SetToZero'' \<and> list_all (\<lambda>x. 0 \<le> x) cs)"
  shows "j + m \<le> length cs \<Longrightarrow> update_loop p j (replicate m 0) cs = (None, cs)"
proof (induction m arbitrary: j)
  case 0
  show ?case by simp
next
  case (Suc m)
  then have j: "j < length cs" and rest: "Suc j + m \<le> length cs" by simp_all
  have ih: "update_loop p (Suc j) (replicate m 0) cs = (None, cs)"
    using rest by (rule Suc.IH)
  show ?case
  proof (cases "0 < cs ! j")
    case True
    then show ?thesis using ih by simp
  next
    case False
    from assms consider "p = ''DoNotChange''" | "p = ''GoNegetive''"
      | "p = ''SetToZero''" "list_all (\<lambda>x. 0 \<le> x) cs" by blast
    then show ?thesis
    proof cases
      case 1
      then show ?thesis using ih False by simp
    next
      case 2
      then show ?thesis using ih False by simp
    next
      case 3
      from 3(2) j have "0 \<le> cs ! j" by (simp add: list_all_length)
      with False have "cs ! j = 0" by simp
      then have "cs[j := 0] = cs" by (metis list_update_id)
      then show ?thesis using ih False 3(1) by simp
    qed
  qed
qed

lemma idle_delta:
  "number_of_reactions s = 0 \<Longrightarrow>
   calculate_concentration_change s = Inr (replicate (length (concentrations s)) 0)"
  by (simp add: calculate_concentration_change_def)

lemma idle_tick:
  assumes "number_of_reactions s = 0"
    and "p = ''DoNotChange'' \<or> p = ''GoNegetive'' \<or>
         (p = ''SetToZero'' \<and> list_all (\<lambda>x. 0 \<le> x) (concentrations s))"
  shows "tick cps p (s, t, ck) =
           (None, (s, t + accuracy s,
              ck @ map (\<lambda>c. Snapshot c (concentrations s))
                     (filter (\<lambda>c. t \<le> c \<and> c < t + accuracy s) cps)))"
proof -
  have "update_concentrations p (replicate (length (concentrations s)) 0) (concentrations s) =
          (None, concentrations s)"
    unfolding update_concentrations_def
    using assms(2) by (rule update_loop_idle) simp
  then show ?thesis
    by (simp add: tick_def idle_delta [OF assms(1)] record_checkpoints_eq)
qed

lemma idle_run_loop:
  assumes "number_of_reactions s = 0"
    and "p = ''DoNotChange'' \<or> p = ''GoNegetive'' \<or>
         (p = ''SetToZero'' \<and> list_all (\<lambda>x. 0 \<le> x) (concentrations s))"
  shows "\<exists>t' recs. run_loop cps p n (s, t, ck) = (None, (s, t', ck @ recs)) \<and>
           (\<forall>r\<in>set recs. \<exists>c\<in>set cps. r = Snapshot c (concentrations s))"
proof (induction n arbitrary: t ck)
  case 0
  have "run_loop cps p 0 (s, t, ck) = (None, (s, t, ck @ []))" by simp
  then show ?case by fastforce
next
  case (Suc n)
  let ?new = "map (\<lambda>c. Snapshot c (concentrations s))
                (filter (\<lambda>c. t \<le> c \<and> c < t + accuracy s) cps)"
  from Suc.IH [of "t + accuracy s" "ck @ ?new"] obtain t' recs where
    r: "run_loop cps p n (s, t + accuracy s, ck @ ?new) = (None, (s, t', (ck @ ?new) @ recs))"
    and recs: "\<forall>r\<in>set recs. \<exists>c\<in>set cps. r = Snapshot c (concentrations s)"
    by blast
  have "run_loop cps p (Suc n) (s, t, ck) = (None, (s, t', ck @ (?new @ recs)))"
    using r by (simp add: idle_tick [OF assms])
  moreover have "\<forall>r\<in>set (?new @ recs). \<exists>c\<in>set cps. r = Snapshot c (concentrations s)"
    using recs by auto
  ultimately show ?case by blast
qed

subsection \<open>The example calculators, evaluated\<close>

lemmas eval_defs = calculate_concentration_change_def reaction_step_def nth_err_def py_get_def
  py_set_def py_index_def py_pow_def pow_val_def is_integral_def

lemma ex_AB_fields:
  "fitted ex_AB" "accuracy ex_AB = 1/2" "concentrations ex_AB = [1, 1]"
  "compounds_unicode_formula ex_AB = [''A'', ''B'']"
  by (simp_all add: ex_AB_def)

lemma ex_AB_delta: "calculate_concentration_change ex_AB = Inr [- 1/4, 1/4]"
  by (simp add: ex_AB_def eval_defs)



lemma ex_negative_fields:
  "fitted ex_negative" "accuracy ex_negative = 1/2" "concentrations ex_negative = [- 3, 1]"
  "compounds_unicode_formula ex_negative = [''A'', ''B'']"
  by (simp_all add: ex_negative_def ex_fast_def)

lemma ex_negative_delta: "calculate_concentration_change ex_negative = Inr [2, - 2]"
  by (simp add: ex_negative_def ex_fast_def eval_defs)

lemma ex_negative_tick:
  "tick [1/4] ''SetToZero'' (ex_negative, 0, [Header ''time'' [''A'', ''B'']]) =
     (None, (ex_negative\<lparr>concentrations := [0, 0]\<rparr>, 1/2,
             [Header ''time'' [''A'', ''B''], Snapshot (1/4) [0, 0]]))"
  by (simp add: tick_def ex_negative_delta ex_negative_fields update_concentrations_def)

lemma ex_negative_run:
  "calculate 0 [1/4] ''SetToZero'' ex_negative =
     (Inr [Header ''time'' [''A'', ''B''], Snapshot (1/4) [0, 0], Snapshot 0 [0, 0]],
      ex_negative\<lparr>concentrations := [0, 0]\<rparr>)"
  by (simp add: calculate_def ex_negative_fields iterations_def py_int_def ex_negative_tick)

lemma ex_AB_tick1:
  "tick cps p (ex_AB, 0, ck) =
     (None, (ex_AB\<lparr>concentrations := [3/4, 5/4]\<rparr>, 1/2,
             record_checkpoints 0 (1/2) [3/4, 5/4] cps ck))"
  by (simp add: tick_def ex_AB_delta ex_AB_fields update_concentrations_def)

lemma ex_AB_delta2:
  "calculate_concentration_change (ex_AB\<lparr>concentrations := [3/4, 5/4]\<rparr>) = Inr [- 1/16, 1/16]"
  by (simp add: ex_AB_def eval_defs)

lemma ex_AB_tick2:
  "tick cps p (ex_AB\<lparr>concentrations := [3/4, 5/4]\<rparr>, 1/2, ck) =
     (None, (ex_AB\<lparr>concentrations := [11/16, 21/16]\<rparr>, 1,
             record_checkpoints (1/2) (1/2) [11/16, 21/16] cps ck))"
  by (simp add: tick_def ex_AB_delta2 ex_AB_fields update_concentrations_def)

lemma ex_AB_run0:
  "calculate 0 cps p ex_AB =
     (Inr (record_checkpoints 0 (1/2) [3/4, 5/4] cps [Header ''time'' [''A'', ''B'']] @
           [Snapshot 0 [3/4, 5/4]]),
      ex_AB\<lparr>concentrations := [3/4, 5/4]\<rparr>)"
  by (simp add: calculate_def ex_AB_fields iterations_def py_int_def ex_AB_tick1)

lemma ex_AB_run_half:
  "calculate (1/2) cps p ex_AB =
     (Inr (record_checkpoints (1/2) (1/2) [11/16, 21/16] cps
             (record_checkpoints 0 (1/2) [3/4, 5/4] cps [Header ''time'' [''A'', ''B'']]) @
           [Snapshot (1/2) [11/16, 21/16]]),
      ex_AB\<lparr>concentrations := [11/16, 21/16]\<rparr>)"
  by (simp add: calculate_def ex_AB_fields iterations_def py_int_def numeral_2_eq_2
      ex_AB_tick1 ex_AB_tick2)


lemma ex_idle_fields:
  "fitted ex_idle" "accuracy ex_idle = 1/2" "concentrations ex_idle = [- 1, 2]"
  "compounds_unicode_formula ex_idle = [''A'', ''B'']" "number_of_reactions ex_idle = 0"
  by (simp_all add: ex_idle_def)

lemma ex_idle_run:
  "calculate 0 [1/4] ''SetToZero'' ex_idle =
     (Inr [Header ''time'' [''A'', ''B''], Snapshot (1/4) [0, 2], Snapshot 0 [0, 2]],
      ex_idle\<lparr>concentrations := [0, 2]\<rparr>)"
  by (simp add: calculate_def ex_idle_fields iterations_def py_int_def tick_def
      calculate_concentration_change_def update_concentrations_def)






subsection \<open>The concentration change of one step\<close>



subsection \<open>A zero concentration under a negative rate dependency\<close>



subsection \<open>Calling \<^verbatim>\<open>calculate\<close> before \<^verbatim>\<open>fit\<close>\<close>

text \<open>
  Claim C7. Every call of \<^verbatim>\<open>calculate\<close> on a calculator that has not been fitted raises
  \<^verbatim>\<open>NameError\<close> and leaves the calculator as it was; a calculator that has only been
  constructed is not fitted, a \<^verbatim>\<open>fit\<close> on something that is no \<^verbatim>\<open>Enviroment\<close> does not fit it,
  so \<^verbatim>\<open>calculate\<close> fails on it.
\<close>

theorem unfitted_calculate_fails:
  "(\<not> fitted s \<longrightarrow> calculate time checkpoint_time concentration_below_zero s = (Inl NameError, s))
   \<and> \<not> fitted (init a)
   \<and> calculate time checkpoint_time concentration_below_zero (init a) = (Inl NameError, init a)
   \<and> (fit OtherObj (init a) = Inl ValueError)"
  by (simp add: calculate_def init_def fit_def)

theorem unfitted_calculate_fails_witness:
  "\<not> fitted (init (1/1000)) \<and>
   calculate 1 [1/2] ''SetToZero'' (init (1/1000)) = (Inl NameError, init (1/1000))"
  using unfitted_calculate_fails [of "init (1/1000)" 1 "[1/2]" "''SetToZero''" "1/1000"]
  by (simp add: init_def)

subsection \<open>The three policies on a step without a boundary\<close>

text \<open>
  Claim C9. In a step in which \<^verbatim>\<open>concentrations[j] + delta_concentration[j]\<close> is strictly
  positive for every compound \<open>j\<close>, the policies \<^verbatim>\<open>SetToZero\<close>, \<^verbatim>\<open>DoNotChange\<close> and
  \<^verbatim>\<open>GoNegetive\<close> give the same step: no exception, and every concentration replaced by
  its candidate.
\<close>

theorem policies_agree_on_positive_tick:
  assumes "calculate_concentration_change s = Inr delta"
    and "\<forall>j<length (concentrations s). 0 < concentrations s ! j + delta ! j"
  shows "tick cps ''SetToZero'' (s, t, ck) = tick cps ''DoNotChange'' (s, t, ck) \<and>
         tick cps ''DoNotChange'' (s, t, ck) = tick cps ''GoNegetive'' (s, t, ck) \<and>
         fst (tick cps ''GoNegetive'' (s, t, ck)) = None \<and>
         concentrations (fst (snd (tick cps ''GoNegetive'' (s, t, ck)))) =
           map2 (+) (concentrations s) delta"
proof -
  have len: "length delta = length (concentrations s)"
    using assms(1) by (rule calculate_concentration_change_length)
  have "update_concentrations p delta (concentrations s) =
          (None, map2 (+) (concentrations s) delta)" for p
    using len assms(2) by (rule update_concentrations_positive)
  then show ?thesis by (simp add: tick_def assms(1))
qed

theorem policies_agree_on_positive_tick_witness:
  "calculate_concentration_change ex_AB = Inr [- 1/4, 1/4] \<and>
   0 < concentrations ex_AB ! 0 + [- 1/4, 1/4] ! 0 \<and>
   0 < concentrations ex_AB ! 1 + [- 1/4, 1/4] ! 1 \<and>
   tick [] ''SetToZero'' (ex_AB, 0, []) = tick [] ''DoNotChange'' (ex_AB, 0, []) \<and>
   tick [] ''DoNotChange'' (ex_AB, 0, []) = tick [] ''GoNegetive'' (ex_AB, 0, []) \<and>
   concentrations (fst (snd (tick [] ''GoNegetive'' (ex_AB, 0, [])))) = [3/4, 5/4]"
proof -
  have pos: "\<forall>j<length (concentrations ex_AB). 0 < concentrations ex_AB ! j + [- 1/4, 1/4] ! j"
    by (simp add: ex_AB_fields All_less_Suc)
  from policies_agree_on_positive_tick [OF ex_AB_delta pos, of "[]" 0 "[]"]
  show ?thesis by (simp add: ex_AB_delta ex_AB_fields)
qed

subsection \<open>\<^verbatim>\<open>SetToZero\<close> keeps the concentrations non-negative\<close>

text \<open>
  Claim C10. Under \<^verbatim>\<open>SetToZero\<close>, after every step of the main loop every concentration
  is \<open>\<ge> 0\<close>, whatever the signs of the concentrations before the step and of the
  deltas; hence, when \<^verbatim>\<open>calculate\<close> returns and has made at least one step, the
  calculator's concentrations and every recorded row are non-negative.
\<close>

theorem clamp_keeps_concentrations_nonnegative:
  "(tick cps ''SetToZero'' (s, t, ck) = (None, (s1, t1, ck1)) \<longrightarrow>
      list_all (\<lambda>x. 0 \<le> x) (concentrations s1)) \<and>
   (calculate time cps ''SetToZero'' s = (Inr rows, s') \<and> 0 \<le> time / accuracy s \<longrightarrow>
      list_all (\<lambda>x. 0 \<le> x) (concentrations s') \<and> list_all nonneg_row rows)"
proof (intro conjI impI)
  assume tk: "tick cps ''SetToZero'' (s, t, ck) = (None, (s1, t1, ck1))"
  from tick_None [OF tk] obtain delta cs where
    d: "calculate_concentration_change s = Inr delta" and
    u: "update_concentrations ''SetToZero'' delta (concentrations s) = (None, cs)" and
    s1: "s1 = s\<lparr>concentrations := cs\<rparr>"
    by auto
  have "length delta = length (concentrations s)"
    using d by (rule calculate_concentration_change_length)
  with update_concentrations_clamp [OF u] show "list_all (\<lambda>x. 0 \<le> x) (concentrations s1)"
    by (simp add: list_all_iff s1)
next
  assume a: "calculate time cps ''SetToZero'' s = (Inr rows, s') \<and> 0 \<le> time / accuracy s"
  then obtain tf ck' where
    run: "run_loop cps ''SetToZero'' (iterations time (accuracy s))
            (s, 0, [Header ''time'' (compounds_unicode_formula s)]) = (None, (s', tf, ck'))"
    and rows: "rows = ck' @ [Snapshot time (concentrations s')]"
    by (auto simp: calculate_def split: if_splits prod.splits option.splits)
  have "list_all nonneg_row [Header ''time'' (compounds_unicode_formula s)]"
    by (simp add: nonneg_row_def)
  from run_loop_clamp [OF run this] iterations_pos a
  have "list_all nonneg_row ck'" "list_all (\<lambda>x. 0 \<le> x) (concentrations s')"
    by simp_all
  then show "list_all (\<lambda>x. 0 \<le> x) (concentrations s')" and "list_all nonneg_row rows"
    by (simp_all add: rows nonneg_row_def)
qed

theorem clamp_keeps_concentrations_nonnegative_witness:
  "tick [1/4] ''SetToZero'' (ex_negative, 0, [Header ''time'' [''A'', ''B'']]) =
     (None, (ex_negative\<lparr>concentrations := [0, 0]\<rparr>, 1/2,
             [Header ''time'' [''A'', ''B''], Snapshot (1/4) [0, 0]])) \<and>
   calculate 0 [1/4] ''SetToZero'' ex_negative =
     (Inr [Header ''time'' [''A'', ''B''], Snapshot (1/4) [0, 0], Snapshot 0 [0, 0]],
      ex_negative\<lparr>concentrations := [0, 0]\<rparr>) \<and>
   (0::real) \<le> 0 / accuracy ex_negative \<and>
   list_all (\<lambda>x. 0 \<le> x) (concentrations (ex_negative\<lparr>concentrations := [0, 0]\<rparr>)) \<and>
   list_all nonneg_row [Header ''time'' [''A'', ''B''], Snapshot (1/4) [0, 0], Snapshot 0 [0, 0]]"
  using clamp_keeps_concentrations_nonnegative
    [of "[1/4]" ex_negative 0 "[Header ''time'' [''A'', ''B'']]"
        "ex_negative\<lparr>concentrations := [0, 0]\<rparr>" "1/2"
        "[Header ''time'' [''A'', ''B''], Snapshot (1/4) [0, 0]]" 0
        "[Header ''time'' [''A'', ''B''], Snapshot (1/4) [0, 0], Snapshot 0 [0, 0]]"
        "ex_negative\<lparr>concentrations := [0, 0]\<rparr>"]
    ex_negative_tick ex_negative_run
  by simp

subsection \<open>The number of iterations\<close>



subsection \<open>Which checkpoints are recorded\<close>




subsection \<open>The order of the returned rows\<close>

text \<open>
  Claim C5, amended. For a positive accuracy, the list a call returns is the header, the
  recorded rows and the final row \<open>(time, concentrations)\<close>. The recorded rows come
  iteration by iteration, so the numbers of their intervals ascend; inside one interval
  they keep the order of \<^verbatim>\<open>checkpoint_time\<close>. Their times ascend when
  \<^verbatim>\<open>checkpoint_time\<close> is ascending.
\<close>

theorem rows_order:
  assumes "0 < accuracy s" and "calculate time cps p s = (Inr rows, s')"
  shows "rows = Header ''time'' (compounds_unicode_formula s) # recorded_rows rows @
                  [Snapshot time (concentrations s')] \<and>
         recorded_rows rows =
           concat (map (\<lambda>i. step_rows (accuracy s) i (concentrations_after p (Suc i) s) cps)
                    [0..<iterations time (accuracy s)]) \<and>
         sorted (map (\<lambda>r. \<lfloor>row_time r / accuracy s\<rfloor>) (recorded_rows rows)) \<and>
         (sorted cps \<longrightarrow> sorted (map row_time (recorded_rows rows)))"
proof -
  let ?n = "iterations time (accuracy s)"
  let ?a = "accuracy s"
  let ?blk = "\<lambda>i. filter (\<lambda>c. of_nat i * ?a \<le> c \<and> c < of_nat i * ?a + ?a) cps"
  note r = calculate_rows [OF assms(2)]
  have times: "map row_time (recorded_rows rows) = concat (map ?blk [0..<?n])"
    by (simp add: r(2) map_concat step_rows_def comp_def)
  have cross: "x \<le> y" if "i < j" "x \<in> set (?blk i)" "y \<in> set (?blk j)" for i j x y
  proof -
    have "real (Suc i) \<le> real j" using that(1) by (simp del: of_nat_Suc)
    then have "real (Suc i) * ?a \<le> real j * ?a"
      using assms(1) by (simp del: of_nat_Suc)
    moreover have "real i * ?a + ?a = real (Suc i) * ?a" by (simp add: algebra_simps)
    moreover have "x < real i * ?a + ?a" "real j * ?a \<le> y" using that(2,3) by simp_all
    ultimately show ?thesis by linarith
  qed
  have floor_blk: "\<lfloor>c / ?a\<rfloor> = int i" if "c \<in> set (?blk i)" for c i
  proof -
    from that have "of_nat i * ?a \<le> c" "c < (of_nat i + 1) * ?a" by (simp_all add: algebra_simps)
    then have "of_int (int i) \<le> c / ?a" "c / ?a < of_int (int i) + 1"
      using assms(1) by (simp_all add: pos_le_divide_eq pos_divide_less_eq)
    then show ?thesis by (simp add: floor_unique)
  qed
  have "map (\<lambda>r. \<lfloor>row_time r / ?a\<rfloor>) (recorded_rows rows) =
          map (\<lambda>c. \<lfloor>c / ?a\<rfloor>) (map row_time (recorded_rows rows))"
    by (simp add: comp_def)
  also have "\<dots> = concat (map (\<lambda>i. map (\<lambda>c. \<lfloor>c / ?a\<rfloor>) (?blk i)) [0..<?n])"
    by (simp only: times map_concat map_map comp_def)
  also have "\<dots> = concat (map (\<lambda>i. map (\<lambda>c. int i) (?blk i)) [0..<?n])"
    using floor_blk by (intro arg_cong [where f = concat] map_cong refl) auto
  finally have idx: "map (\<lambda>r. \<lfloor>row_time r / ?a\<rfloor>) (recorded_rows rows) =
                       concat (map (\<lambda>i. map (\<lambda>c. int i) (?blk i)) [0..<?n])" .
  have const_sorted: "sorted (map (\<lambda>c. k) xs)" for k :: int and xs :: "real list"
    by (induction xs) simp_all
  have "sorted (concat (map (\<lambda>i. map (\<lambda>c. int i) (?blk i)) [0..<?n]))"
  proof (rule sorted_concat_upt)
    show "sorted (map (\<lambda>c. int i) (?blk i))" for i by (rule const_sorted)
    show "x \<le> y" if "i < j" "x \<in> set (map (\<lambda>c. int i) (?blk i))"
      "y \<in> set (map (\<lambda>c. int j) (?blk j))" for i j x y
    proof -
      from that(2) have "x = int i" by (auto simp only: set_map)
      moreover from that(3) have "y = int j" by (auto simp only: set_map)
      ultimately show ?thesis using that(1) by simp
    qed
  qed
  then have s1: "sorted (map (\<lambda>r. \<lfloor>row_time r / ?a\<rfloor>) (recorded_rows rows))"
    by (simp only: idx)
  have s2: "sorted (map row_time (recorded_rows rows))" if "sorted cps"
    unfolding times
  proof (rule sorted_concat_upt)
    show "sorted (?blk i)" for i using that by (rule sorted_wrt_filter)
    show "x \<le> y" if "i < j" "x \<in> set (?blk i)" "y \<in> set (?blk j)" for i j x y
      using that by (rule cross)
  qed
  from r s1 s2 show ?thesis by blast
qed

theorem rows_order_witness:
  "0 < accuracy ex_AB \<and>
   calculate (1/2) [1/8, 3/8, 3/4] ''SetToZero'' ex_AB =
     (Inr [Header ''time'' [''A'', ''B''], Snapshot (1/8) [3/4, 5/4], Snapshot (3/8) [3/4, 5/4],
           Snapshot (3/4) [11/16, 21/16], Snapshot (1/2) [11/16, 21/16]],
      ex_AB\<lparr>concentrations := [11/16, 21/16]\<rparr>) \<and>
   sorted [1/8, 3/8, 3/4 :: real] \<and>
   sorted (map row_time (recorded_rows
     [Header ''time'' [''A'', ''B''], Snapshot (1/8) [3/4, 5/4], Snapshot (3/8) [3/4, 5/4],
      Snapshot (3/4) [11/16, 21/16], Snapshot (1/2) [11/16, 21/16]])) \<and>
   sorted (map (\<lambda>r. \<lfloor>row_time r / accuracy ex_AB\<rfloor>) (recorded_rows
     [Header ''time'' [''A'', ''B''], Snapshot (1/8) [3/4, 5/4], Snapshot (3/8) [3/4, 5/4],
      Snapshot (3/4) [11/16, 21/16], Snapshot (1/2) [11/16, 21/16]]))"
proof -
  have h1: "0 < accuracy ex_AB" by (simp add: ex_AB_fields)
  have h2: "calculate (1/2) [1/8, 3/8, 3/4] ''SetToZero'' ex_AB =
     (Inr [Header ''time'' [''A'', ''B''], Snapshot (1/8) [3/4, 5/4], Snapshot (3/8) [3/4, 5/4],
           Snapshot (3/4) [11/16, 21/16], Snapshot (1/2) [11/16, 21/16]],
      ex_AB\<lparr>concentrations := [11/16, 21/16]\<rparr>)"
    by (simp add: ex_AB_run_half)
  have h3: "sorted [1/8, 3/8, 3/4 :: real]" by simp
  from rows_order [OF h1 h2] h1 h2 h3 show ?thesis by blast
qed

text \<open>
  The claim as stated fails: the checkpoints 3/8 and 1/8, given in this order, fall into
  the same interval and are returned in this order.
\<close>

theorem rows_not_ascending_counterexample:
  "calculate 0 [3/8, 1/8] ''SetToZero'' ex_AB =
     (Inr [Header ''time'' [''A'', ''B''], Snapshot (3/8) [3/4, 5/4], Snapshot (1/8) [3/4, 5/4],
           Snapshot 0 [3/4, 5/4]],
      ex_AB\<lparr>concentrations := [3/4, 5/4]\<rparr>) \<and>
   \<not> sorted (map row_time [Snapshot (3/8) [3/4, 5/4], Snapshot (1/8) [3/4, 5/4]])"
proof -
  have "\<not> ((3/8::real) \<le> 1/8)" by simp
  then have "\<not> sorted (map row_time [Snapshot (3/8) [3/4, 5/4], Snapshot (1/8) [3/4, 5/4]])"
    by (simp only: list.map row_time.simps sorted2 sorted1 simp_thms)
  then show ?thesis by (simp only: simp_thms) (simp add: ex_AB_run0)
qed

subsection \<open>A policy that \<^verbatim>\<open>calculate\<close> does not know\<close>




subsection \<open>No reaction\<close>

text \<open>
  Claim C8, amended. With no reaction, a fitted calculator and a non-zero accuracy,
  \<^verbatim>\<open>calculate\<close> returns, leaves the calculator as it was, and every row after the header
  holds the initial concentrations, under \<^verbatim>\<open>DoNotChange\<close> and \<^verbatim>\<open>GoNegetive\<close> always and
  under \<^verbatim>\<open>SetToZero\<close> when no initial concentration is negative.
\<close>

theorem no_reaction_run_keeps_concentrations:
  assumes "number_of_reactions s = 0" and "fitted s" and "accuracy s \<noteq> 0"
    and "p = ''DoNotChange'' \<or> p = ''GoNegetive'' \<or>
         (p = ''SetToZero'' \<and> list_all (\<lambda>x. 0 \<le> x) (concentrations s))"
  shows "\<exists>recs. calculate time cps p s =
            (Inr (Header ''time'' (compounds_unicode_formula s) # recs @
                  [Snapshot time (concentrations s)]), s) \<and>
           (\<forall>r\<in>set recs. \<exists>c\<in>set cps. r = Snapshot c (concentrations s))"
proof -
  from idle_run_loop [OF assms(1,4)] obtain t' recs where
    r: "run_loop cps p (iterations time (accuracy s))
          (s, 0, [Header ''time'' (compounds_unicode_formula s)]) =
          (None, (s, t', [Header ''time'' (compounds_unicode_formula s)] @ recs))"
    and recs: "\<forall>r\<in>set recs. \<exists>c\<in>set cps. r = Snapshot c (concentrations s)"
    by blast
  have "calculate time cps p s =
            (Inr (Header ''time'' (compounds_unicode_formula s) # recs @
                  [Snapshot time (concentrations s)]), s)"
    using assms(2,3) r by (simp add: calculate_def)
  with recs show ?thesis by blast
qed

theorem no_reaction_run_keeps_concentrations_witness:
  "number_of_reactions ex_idle = 0 \<and> fitted ex_idle \<and> accuracy ex_idle \<noteq> 0 \<and>
   (\<exists>recs. calculate (1/2) [1/4, 3/4] ''GoNegetive'' ex_idle =
      (Inr (Header ''time'' (compounds_unicode_formula ex_idle) # recs @
            [Snapshot (1/2) (concentrations ex_idle)]), ex_idle)) \<and>
   number_of_reactions (ex_idle\<lparr>concentrations := [0, 2]\<rparr>) = 0 \<and>
   list_all (\<lambda>x. 0 \<le> x) (concentrations (ex_idle\<lparr>concentrations := [0, 2]\<rparr>)) \<and>
   (\<exists>recs. calculate (1/2) [1/4, 3/4] ''SetToZero'' (ex_idle\<lparr>concentrations := [0, 2]\<rparr>) =
      (Inr (Header ''time'' [''A'', ''B''] # recs @ [Snapshot (1/2) [0, 2]]),
       ex_idle\<lparr>concentrations := [0, 2]\<rparr>))"
proof -
  have h: "number_of_reactions ex_idle = 0" "fitted ex_idle" "accuracy ex_idle \<noteq> 0"
    "''GoNegetive'' = ''DoNotChange'' \<or> ''GoNegetive'' = ''GoNegetive'' \<or>
         (''GoNegetive'' = ''SetToZero'' \<and> list_all (\<lambda>x. 0 \<le> x) (concentrations ex_idle))"
    by (simp_all add: ex_idle_fields)
  let ?s = "ex_idle\<lparr>concentrations := [0, 2]\<rparr>"
  have g: "number_of_reactions ?s = 0" "fitted ?s" "accuracy ?s \<noteq> 0"
    "list_all (\<lambda>x. 0 \<le> x) (concentrations ?s)"
    "''SetToZero'' = ''DoNotChange'' \<or> ''SetToZero'' = ''GoNegetive'' \<or>
         (''SetToZero'' = ''SetToZero'' \<and> list_all (\<lambda>x. 0 \<le> x) (concentrations ?s))"
    by (simp_all add: ex_idle_fields)
  from no_reaction_run_keeps_concentrations [OF h, of "1/2" "[1/4, 3/4]"]
  have a: "\<exists>recs. calculate (1/2) [1/4, 3/4] ''GoNegetive'' ex_idle =
      (Inr (Header ''time'' (compounds_unicode_formula ex_idle) # recs @
            [Snapshot (1/2) (concentrations ex_idle)]), ex_idle)"
    by blast
  from no_reaction_run_keeps_concentrations [OF g(1,2,3,5), of "1/2" "[1/4, 3/4]"]
  have "\<exists>recs. calculate (1/2) [1/4, 3/4] ''SetToZero'' ?s =
      (Inr (Header ''time'' (compounds_unicode_formula ?s) # recs @
            [Snapshot (1/2) (concentrations ?s)]), ?s)"
    by blast
  then have b: "\<exists>recs. calculate (1/2) [1/4, 3/4] ''SetToZero'' ?s =
      (Inr (Header ''time'' [''A'', ''B''] # recs @ [Snapshot (1/2) [0, 2]]), ?s)"
    by (simp add: ex_idle_fields)
  from h(1,2,3) g(1,4) a b show ?thesis by blast
qed

text \<open>
  The claim as stated fails: under \<^verbatim>\<open>SetToZero\<close> the first iteration replaces a negative
  initial concentration by 0.
\<close>

theorem no_reaction_clamp_counterexample:
  "fitted ex_idle \<and> number_of_reactions ex_idle = 0 \<and> concentrations ex_idle = [- 1, 2] \<and>
   calculate 0 [1/4] ''SetToZero'' ex_idle =
     (Inr [Header ''time'' [''A'', ''B''], Snapshot (1/4) [0, 2], Snapshot 0 [0, 2]],
      ex_idle\<lparr>concentrations := [0, 2]\<rparr>) \<and>
   [0, 2] \<noteq> concentrations ex_idle"
  by (simp add: ex_idle_fields ex_idle_run)

end
